theory Spec2Isabelle
  imports Main
begin

section \<open>The comparison view of \<^verbatim>\<open>src/routes/+page.svelte\<close>\<close>

text \<open>
  The component keeps five variables (\<^verbatim>\<open>pokemonData\<close>, \<^verbatim>\<open>selectedPokemon\<close>,
  \<^verbatim>\<open>chartInstance\<close>, \<^verbatim>\<open>searchTerm\<close>, \<^verbatim>\<open>loading\<close>) and five functions. The
  embedding below is a state record with these variables, one HOL function per source
  function, and a log of the effects the functions have on the outside (requests issued,
  alerts, console output, chart objects created and destroyed).

  Strings are lists of 8-bit characters, read as UTF-16 code units below 256. Numbers that
  the code only copies or compares (\<^verbatim>\<open>id\<close>, \<^verbatim>\<open>base_stat\<close>) are \<open>nat\<close> and \<open>int\<close>.
\<close>

subsection \<open>Strings and arrays of the JavaScript library\<close>

text \<open>
  \<^verbatim>\<open>String.prototype.toLowerCase\<close> on code units below 256: the letters A-Z and the
  Latin-1 capitals (0xC0-0xDE without the multiplication sign 0xD7) move up by 32,
  everything else stays.
\<close>

definition lower_char :: "char \<Rightarrow> char" where
  "lower_char c =
     (let n = (of_char c :: nat) in
      if (65 \<le> n \<and> n \<le> 90) \<or> (192 \<le> n \<and> n \<le> 214) \<or> (216 \<le> n \<and> n \<le> 222)
      then char_of (n + 32) else c)"

definition toLowerCase :: "string \<Rightarrow> string" where
  "toLowerCase s = map lower_char s"

text \<open>
  \<^verbatim>\<open>toUpperCase\<close> may lengthen a string (the sharp s, 0xDF, becomes \<^verbatim>\<open>SS\<close>), so one
  character maps to a string. The capitals of 0xB5 and 0xFF lie above 255 and cannot be
  written in this character type; the model leaves these two characters as they are.
\<close>

definition upper_char :: "char \<Rightarrow> string" where
  "upper_char c =
     (let n = (of_char c :: nat) in
      if (97 \<le> n \<and> n \<le> 122) \<or> (224 \<le> n \<and> n \<le> 246) \<or> (248 \<le> n \<and> n \<le> 254)
      then [char_of (n - 32)]
      else if n = 223 then ''SS'' else [c])"

definition toUpperCase :: "string \<Rightarrow> string" where
  "toUpperCase s = concat (map upper_char s)"

definition starts_with :: "string \<Rightarrow> string \<Rightarrow> bool" where
  "starts_with s t = (take (length t) s = t)"

text \<open>\<^verbatim>\<open>s.includes(t)\<close>: some position of \<open>s\<close> starts an occurrence of \<open>t\<close>.\<close>

fun includes_str :: "string \<Rightarrow> string \<Rightarrow> bool" where
  "includes_str [] t = (t = [])"
| "includes_str (c # cs) t = (starts_with (c # cs) t \<or> includes_str cs t)"

text \<open>
  \<^verbatim>\<open>s.replace(pat, rep)\<close> with string arguments replaces the first occurrence only.
  The replacement is taken as it is written; the one used here has no \<^verbatim>\<open>$\<close> pattern.
\<close>

fun replace :: "string \<Rightarrow> string \<Rightarrow> string \<Rightarrow> string" where
  "replace [] pat rep = (if pat = [] then rep else [])"
| "replace (c # cs) pat rep =
     (if starts_with (c # cs) pat then rep @ drop (length pat) (c # cs)
      else c # replace cs pat rep)"

text \<open>\<^verbatim>\<open>xs.findIndex(P)\<close>: the first index whose element satisfies \<open>P\<close>, or \<open>-1\<close>.\<close>

fun findIndex :: "('a \<Rightarrow> bool) \<Rightarrow> 'a list \<Rightarrow> int" where
  "findIndex P [] = - 1"
| "findIndex P (x # xs) =
     (if P x then 0
      else (let i = findIndex P xs in if i < 0 then - 1 else i + 1))"

text \<open>
  \<^verbatim>\<open>xs.slice(start, fin)\<close>: a negative bound counts from the end, and both bounds are
  clamped to the array. \<^verbatim>\<open>xs.slice(start)\<close> runs to the end of the array.
\<close>

definition slice :: "'a list \<Rightarrow> int \<Rightarrow> int \<Rightarrow> 'a list" where
  "slice xs start fin =
     (let len = int (length xs);
          k = (if start < 0 then max (len + start) 0 else min start len);
          final = (if fin < 0 then max (len + fin) 0 else min fin len)
      in take (nat (final - k)) (drop (nat k) xs))"

definition slice_from :: "'a list \<Rightarrow> int \<Rightarrow> 'a list" where
  "slice_from xs start = slice xs start (int (length xs))"

subsection \<open>Data\<close>

record pokemon =
  pokemon_id :: nat
  pokemon_name :: string
  pokemon_url :: string

text \<open>The interface \<^verbatim>\<open>PokemonAPIResponse\<close>: one element of \<^verbatim>\<open>data.results\<close>.\<close>

record PokemonAPIResponse =
  api_name :: string
  api_url :: string

text \<open>One element of \<^verbatim>\<open>data.stats\<close> of a detail body: \<^verbatim>\<open>stat.name\<close> and \<^verbatim>\<open>base_stat\<close>.\<close>

record stat_json =
  stat_stat_name :: string
  base_stat :: int

text \<open>
  What a request gives back to the code between \<^verbatim>\<open>try\<close> and \<^verbatim>\<open>catch\<close>. \<open>Failed\<close>
  stands for every way of reaching the \<^verbatim>\<open>catch\<close> block: \<^verbatim>\<open>fetch\<close> rejects, the
  body is not JSON, or the JSON lacks the field that is mapped over.
\<close>

datatype 'a response = Failed | Body 'a

record stat =
  stat_name :: string
  stat_value :: int

record details =
  details_name :: string
  details_stats :: "stat list"

record dataset =
  label :: string
  data :: "int list"
  backgroundColor :: string
  borderColor :: string
  borderWidth :: nat

record chartData =
  labels :: "string list"
  datasets :: "dataset list"

text \<open>
  A \<^verbatim>\<open>Chart\<close> object: its identity (objects are numbered in the order of their
  creation) and the configuration it was created with. The drawing surface is looked up
  in the document, which is not part of the script's state, and is left out.
\<close>

record chart =
  chart_handle :: nat
  chart_type :: string
  chart_data :: chartData
  r_beginAtZero :: bool
  r_max :: nat

datatype event =
    Fetch string
  | ConsoleError string
  | Alert string
  | UncaughtTypeError
  | ChartDestroy nat
  | ChartNew nat

text \<open>
  The five variables of the script, and what the run time holds besides them: the log of
  effects, the calls of \<^verbatim>\<open>updateChart\<close> suspended at their \<^verbatim>\<open>await\<close> (each with
  the array it mapped over), the number of suspended calls of
  \<^verbatim>\<open>fetchPokemonList\<close>, and the number of chart objects created so far.
\<close>

record state =
  pokemonData :: "pokemon list"
  selectedPokemon :: "pokemon list"
  chartInstance :: "chart option"
  searchTerm :: string
  loading :: bool
  events :: "event list"
  renders :: "pokemon list list"
  lists :: nat
  created :: nat

definition init :: state where
  "init = \<lparr>pokemonData = [], selectedPokemon = [], chartInstance = None,
            searchTerm = [], loading = False,
            events = [], renders = [], lists = 0, created = 0\<rparr>"

definition chartColors :: "string list" where
  "chartColors =
     [''rgba(255, 99, 132, 0.7)'',
      ''rgba(54, 162, 235, 0.7)'',
      ''rgba(255, 206, 86, 0.7)'',
      ''rgba(75, 192, 192, 0.7)'',
      ''rgba(153, 102, 255, 0.7)'',
      ''rgba(255, 159, 64, 0.7)'']"

subsection \<open>\<^verbatim>\<open>fetchPokemonList\<close>\<close>

definition list_url :: string where
  "list_url = ''https://pokeapi.co/api/v2/pokemon?limit=151''"

definition list_error :: string where
  "list_error = ''Error al obtener la lista de Pok'' @ [CHR 0xE9] @ ''mon:''"

text \<open>Up to the first \<^verbatim>\<open>await\<close>: the flag is set and the request is issued.\<close>

definition fetchPokemonList_begin :: "state \<Rightarrow> state" where
  "fetchPokemonList_begin s =
     s\<lparr>loading := True, events := events s @ [Fetch list_url], lists := Suc (lists s)\<rparr>"

text \<open>
  From the \<^verbatim>\<open>await\<close> on: the \<^verbatim>\<open>try\<close> block assigns the catalog with ids
  \<^verbatim>\<open>index + 1\<close>, the \<^verbatim>\<open>catch\<close> block logs, the \<^verbatim>\<open>finally\<close> block clears the
  flag on both paths.
\<close>

definition fetchPokemonList_resume :: "PokemonAPIResponse list response \<Rightarrow> state \<Rightarrow> state" where
  "fetchPokemonList_resume r s =
     (let s1 = (case r of
                  Body results \<Rightarrow>
                    s\<lparr>pokemonData :=
                        map (\<lambda>(index, pokemon).
                               \<lparr>pokemon_id = index + 1,
                                pokemon_name = api_name pokemon,
                                pokemon_url = api_url pokemon\<rparr>)
                            (enumerate 0 results)\<rparr>
                | Failed \<Rightarrow> s\<lparr>events := events s @ [ConsoleError list_error]\<rparr>)
      in s1\<lparr>loading := False\<rparr>)"

subsection \<open>\<^verbatim>\<open>fetchPokemonDetails\<close>\<close>

definition details_error :: "string \<Rightarrow> string" where
  "details_error name = ''Error al obtener detalles de '' @ name @ '':''"

text \<open>
  The value the call resolves to, given what its request gave back: the details, or
  \<^verbatim>\<open>null\<close> (\<open>None\<close>) from the \<^verbatim>\<open>catch\<close> block. The call never rejects.
\<close>

definition fetchPokemonDetails :: "pokemon \<Rightarrow> stat_json list response \<Rightarrow> details option" where
  "fetchPokemonDetails pokemon r =
     (case r of
        Body stats \<Rightarrow>
          Some \<lparr>details_name = pokemon_name pokemon,
                details_stats =
                  map (\<lambda>st. \<lparr>stat_name = stat_stat_name st, stat_value = base_stat st\<rparr>) stats\<rparr>
      | Failed \<Rightarrow> None)"

text \<open>What the \<^verbatim>\<open>catch\<close> block of the call writes to the console.\<close>

definition fetchPokemonDetails_log :: "pokemon \<Rightarrow> stat_json list response \<Rightarrow> event list" where
  "fetchPokemonDetails_log pokemon r =
     (case r of
        Body stats \<Rightarrow> []
      | Failed \<Rightarrow> [ConsoleError (details_error (pokemon_name pokemon))])"

subsection \<open>\<^verbatim>\<open>updateChart\<close>\<close>

definition chart_labels :: "string list" where
  "chart_labels = [''HP'', ''Ataque'', ''Defensa'', ''Ataque Esp.'', ''Defensa Esp.'', ''Velocidad'']"

text \<open>The callback of \<^verbatim>\<open>pokemonDetails.map\<close> for an element that is not \<^verbatim>\<open>null\<close>.\<close>

definition dataset_of :: "nat \<Rightarrow> details \<Rightarrow> dataset" where
  "dataset_of index pokemon =
     \<lparr>label = toUpperCase (take 1 (details_name pokemon)) @ drop 1 (details_name pokemon),
      data = map stat_value (details_stats pokemon),
      backgroundColor = chartColors ! (index mod length chartColors),
      borderColor = replace (chartColors ! (index mod length chartColors)) ''0.7'' ''1'',
      borderWidth = 1\<rparr>"

text \<open>
  \<^verbatim>\<open>pokemonDetails.map\<close> from position \<open>index\<close> on. Reading \<^verbatim>\<open>pokemon.name\<close> of a
  \<^verbatim>\<open>null\<close> element throws a TypeError, which ends the map (\<open>None\<close>).
\<close>

fun datasets_of :: "nat \<Rightarrow> details option list \<Rightarrow> dataset list option" where
  "datasets_of index [] = Some []"
| "datasets_of index (None # rest) = None"
| "datasets_of index (Some pokemon # rest) =
     (case datasets_of (Suc index) rest of
        None \<Rightarrow> None
      | Some ds \<Rightarrow> Some (dataset_of index pokemon # ds))"

text \<open>
  Up to the \<^verbatim>\<open>await\<close>: nothing at all for an empty selection; otherwise the flag is
  set, one request per selected entry is issued in selection order, and the call is
  suspended.
\<close>

definition updateChart_begin :: "state \<Rightarrow> state" where
  "updateChart_begin s =
     (if length (selectedPokemon s) = 0 then s
      else s\<lparr>loading := True,
             events := events s @ map (\<lambda>pokemon. Fetch (pokemon_url pokemon)) (selectedPokemon s),
             renders := renders s @ [selectedPokemon s]\<rparr>)"

text \<open>
  From the \<^verbatim>\<open>await\<close> on, for the call that mapped over \<open>sel\<close>, once its requests
  have given back \<open>rs\<close> (one per entry). The console lines of the failed requests are
  logged in selection order. A TypeError thrown while the datasets are built leaves the
  function at once; nothing catches it.
\<close>

definition updateChart_resume :: "pokemon list \<Rightarrow> stat_json list response list \<Rightarrow> state \<Rightarrow> state" where
  "updateChart_resume sel rs s =
     (let pokemonDetails = map (\<lambda>(pokemon, r). fetchPokemonDetails pokemon r) (zip sel rs);
          s1 = s\<lparr>events := events s @
                     concat (map (\<lambda>(pokemon, r). fetchPokemonDetails_log pokemon r) (zip sel rs))\<rparr>
      in case datasets_of 0 pokemonDetails of
           None \<Rightarrow> s1\<lparr>events := events s1 @ [UncaughtTypeError]\<rparr>
         | Some ds \<Rightarrow>
             (let chartData = \<lparr>labels = chart_labels, datasets = ds\<rparr>;
                  s2 = (case chartInstance s1 of
                          Some old \<Rightarrow> s1\<lparr>events := events s1 @ [ChartDestroy (chart_handle old)]\<rparr>
                        | None \<Rightarrow> s1);
                  new = \<lparr>chart_handle = created s2, chart_type = ''radar'',
                         chart_data = chartData, r_beginAtZero = True, r_max = 150\<rparr>
              in s2\<lparr>chartInstance := Some new,
                    created := Suc (created s2),
                    events := events s2 @ [ChartNew (created s2)],
                    loading := False\<rparr>))"

subsection \<open>The search filter\<close>

text \<open>The reactive declaration \<^verbatim>\<open>$: filteredPokemon = ...\<close>, as a function of what it reads.\<close>

definition filteredPokemon :: "pokemon list \<Rightarrow> string \<Rightarrow> pokemon list" where
  "filteredPokemon catalog term =
     filter (\<lambda>pokemon. includes_str (toLowerCase (pokemon_name pokemon)) (toLowerCase term)) catalog"

subsection \<open>\<^verbatim>\<open>togglePokemon\<close> and \<^verbatim>\<open>isPokemonSelected\<close>\<close>

definition capacity_warning :: string where
  "capacity_warning =
     ''Puedes seleccionar un m'' @ [CHR 0xE1] @ ''ximo de 6 Pok'' @ [CHR 0xE9] @ ''mon para comparar''"

text \<open>
  The call \<^verbatim>\<open>updateChart()\<close> at the end is not awaited: it runs up to its
  \<^verbatim>\<open>await\<close> and the rest follows when the requests have settled.
\<close>

definition togglePokemon :: "pokemon \<Rightarrow> state \<Rightarrow> state" where
  "togglePokemon pokemon s =
     (let index = findIndex (\<lambda>p. pokemon_id p = pokemon_id pokemon) (selectedPokemon s);
          s1 = (if index \<ge> 0 then
                  s\<lparr>selectedPokemon :=
                      slice (selectedPokemon s) 0 index @ slice_from (selectedPokemon s) (index + 1)\<rparr>
                else if length (selectedPokemon s) < 6 then
                  s\<lparr>selectedPokemon := selectedPokemon s @ [pokemon]\<rparr>
                else s\<lparr>events := events s @ [Alert capacity_warning]\<rparr>)
      in updateChart_begin s1)"

definition isPokemonSelected :: "pokemon \<Rightarrow> state \<Rightarrow> bool" where
  "isPokemonSelected pokemon s = list_ex (\<lambda>p. pokemon_id p = pokemon_id pokemon) (selectedPokemon s)"

subsection \<open>The chart area of the markup\<close>

datatype chart_area = LoadingText | NoDataText | Canvas

definition chart_container :: "state \<Rightarrow> chart_area" where
  "chart_container s =
     (if loading s then LoadingText
      else if length (selectedPokemon s) = 0 then NoDataText
      else Canvas)"

subsection \<open>Runs of the component\<close>

text \<open>
  What can happen to the component: it is mounted (\<^verbatim>\<open>onMount\<close> calls
  \<^verbatim>\<open>fetchPokemonList\<close>), the catalog request settles, the user types into the search box,
  the user clicks an entry, or all requests of the \<open>k\<close>-th suspended call of
  \<^verbatim>\<open>updateChart\<close> have settled. JavaScript runs each of these pieces to its end before
  the next one starts. An action that is not possible in a state leaves it as it is.
\<close>

datatype action =
    Mount
  | ListSettled "PokemonAPIResponse list response"
  | Search string
  | Toggle pokemon
  | RenderSettled nat "stat_json list response list"

fun step :: "action \<Rightarrow> state \<Rightarrow> state" where
  "step Mount s = fetchPokemonList_begin s"
| "step (ListSettled r) s =
     (if lists s = 0 then s else fetchPokemonList_resume r (s\<lparr>lists := lists s - 1\<rparr>))"
| "step (Search term) s = s\<lparr>searchTerm := term\<rparr>"
| "step (Toggle pokemon) s = togglePokemon pokemon s"
| "step (RenderSettled k rs) s =
     (if k < length (renders s) \<and> length rs = length (renders s ! k)
      then updateChart_resume (renders s ! k) rs
             (s\<lparr>renders := take k (renders s) @ drop (Suc k) (renders s)\<rparr>)
      else s)"

fun run :: "action list \<Rightarrow> state \<Rightarrow> state" where
  "run [] s = s"
| "run (a # as) s = run as (step a s)"

subsection \<open>Notions used in the statements\<close>

text \<open>The alert messages of a log, in order.\<close>

definition alerts :: "event list \<Rightarrow> string list" where
  "alerts es = concat (map (\<lambda>e. case e of Alert m \<Rightarrow> [m] | _ \<Rightarrow> []) es)"

definition selection_ok :: "state \<Rightarrow> bool" where
  "selection_ok s \<longleftrightarrow>
     length (selectedPokemon s) \<le> 6 \<and> distinct (map pokemon_id (selectedPokemon s))"

text \<open>The requests issued in a log, and the part of a log that concerns chart objects.\<close>

definition fetches :: "event list \<Rightarrow> string list" where
  "fetches es = concat (map (\<lambda>e. case e of Fetch u \<Rightarrow> [u] | _ \<Rightarrow> []) es)"

definition chart_events :: "event list \<Rightarrow> event list" where
  "chart_events es =
     filter (\<lambda>e. case e of ChartNew h \<Rightarrow> True | ChartDestroy h \<Rightarrow> True | _ \<Rightarrow> False) es"

text \<open>
  The chart objects that are live after a log has happened, starting from the live
  objects \<open>L\<close>: \<^verbatim>\<open>new Chart\<close> adds one, \<^verbatim>\<open>destroy\<close> removes one.
\<close>

fun live_after :: "nat list \<Rightarrow> event list \<Rightarrow> nat list" where
  "live_after L [] = L"
| "live_after L (ChartNew h # es) = live_after (L @ [h]) es"
| "live_after L (ChartDestroy h # es) = live_after (removeAll h L) es"
| "live_after L (e # es) = live_after L es"

text \<open>A log in which no chart object is created while another one is live.\<close>

fun releases_first :: "nat list \<Rightarrow> event list \<Rightarrow> bool" where
  "releases_first L [] = True"
| "releases_first L (ChartNew h # es) = (L = [] \<and> releases_first [h] es)"
| "releases_first L (ChartDestroy h # es) = releases_first (removeAll h L) es"
| "releases_first L (e # es) = releases_first L es"

definition chart_inv :: "state \<Rightarrow> bool" where
  "chart_inv s \<longleftrightarrow>
     releases_first [] (events s) \<and>
     live_after [] (events s) = (case chartInstance s of None \<Rightarrow> [] | Some c \<Rightarrow> [chart_handle c])"

subsection \<open>Example data\<close>

definition bulbasaur :: pokemon where
  "bulbasaur = \<lparr>pokemon_id = 1, pokemon_name = ''bulbasaur'',
                 pokemon_url = ''https://pokeapi.co/api/v2/pokemon/1/''\<rparr>"

definition charmander :: pokemon where
  "charmander = \<lparr>pokemon_id = 4, pokemon_name = ''charmander'',
                  pokemon_url = ''https://pokeapi.co/api/v2/pokemon/4/''\<rparr>"

definition entry :: "nat \<Rightarrow> pokemon" where
  "entry n = \<lparr>pokemon_id = n, pokemon_name = ''entry'',
               pokemon_url = ''https://pokeapi.co/api/v2/pokemon/''\<rparr>"

definition with_selection :: "pokemon list \<Rightarrow> state" where
  "with_selection sel = init\<lparr>selectedPokemon := sel\<rparr>"

definition stats_json :: "(string \<times> int) list \<Rightarrow> stat_json list" where
  "stats_json kvs = map (\<lambda>(k, v). \<lparr>stat_stat_name = k, base_stat = v\<rparr>) kvs"

definition bulbasaur_stats :: "stat_json list" where
  "bulbasaur_stats =
     stats_json [(''hp'', 45), (''attack'', 49), (''defense'', 49),
                 (''special-attack'', 65), (''special-defense'', 65), (''speed'', 45)]"

definition charmander_stats :: "stat_json list" where
  "charmander_stats =
     stats_json [(''hp'', 39), (''attack'', 52), (''defense'', 43),
                 (''special-attack'', 60), (''special-defense'', 50), (''speed'', 65)]"

text \<open>The same six stats of the second entry, listed with the speed first.\<close>

definition charmander_stats_speed_first :: "stat_json list" where
  "charmander_stats_speed_first =
     stats_json [(''speed'', 65), (''hp'', 39), (''attack'', 52), (''defense'', 43),
                 (''special-attack'', 60), (''special-defense'', 50)]"

text \<open>The state after the first entry was clicked and its chart drawn.\<close>

definition one_chart :: state where
  "one_chart = run [Toggle bulbasaur, RenderSettled 0 [Body bulbasaur_stats]] init"

text \<open>Two renders one after the other, the second replacing the chart of the first.\<close>

definition two_renders :: "action list" where
  "two_renders = [Toggle bulbasaur, RenderSettled 0 [Body bulbasaur_stats],
       Toggle charmander, RenderSettled 0 [Body bulbasaur_stats, Body charmander_stats]]"

text \<open>States after a render of two entries, and of one entry with either listing of its stats.\<close>

definition two_selected :: state where
  "two_selected =
     step (RenderSettled 0 [Body bulbasaur_stats, Body charmander_stats])
       (updateChart_begin (with_selection [bulbasaur, charmander]))"

definition speed_first :: state where
  "speed_first = run [Toggle charmander, RenderSettled 0 [Body charmander_stats_speed_first]] init"

definition speed_last :: state where
  "speed_last = run [Toggle charmander, RenderSettled 0 [Body charmander_stats]] init"

section \<open>Properties\<close>

subsection \<open>Library functions\<close>

lemma findIndex_range: "- 1 \<le> findIndex P xs \<and> findIndex P xs < int (length xs)"
  by (induction xs) (auto simp: Let_def)

lemma findIndex_neg_iff: "findIndex P xs < 0 \<longleftrightarrow> (\<forall>x \<in> set xs. \<not> P x)"
  by (induction xs) (auto simp: Let_def)

lemma findIndex_hit: "0 \<le> findIndex P xs \<Longrightarrow> P (xs ! nat (findIndex P xs))"
  by (induction xs) (auto simp: Let_def nat_add_distrib split: if_splits)

lemma findIndex_first: "j < nat (findIndex P xs) \<Longrightarrow> \<not> P (xs ! j)"
proof (induction xs arbitrary: j)
  case Nil
  then show ?case by simp
next
  case (Cons x xs)
  then show ?case
    by (cases j) (auto simp: Let_def nat_add_distrib split: if_splits)
qed

lemma slice_prefix: "0 \<le> i \<Longrightarrow> i \<le> int (length xs) \<Longrightarrow> slice xs 0 i = take (nat i) xs"
  by (simp add: slice_def Let_def min_def)

lemma slice_from_suffix: "0 \<le> i \<Longrightarrow> i \<le> int (length xs) \<Longrightarrow> slice_from xs i = drop (nat i) xs"
  by (simp add: slice_from_def slice_def Let_def min_def)

lemma remove_at_index:
  assumes "0 \<le> findIndex P xs"
  shows "slice xs 0 (findIndex P xs) @ slice_from xs (findIndex P xs + 1) =
         take (nat (findIndex P xs)) xs @ drop (Suc (nat (findIndex P xs))) xs"
proof -
  have r: "findIndex P xs < int (length xs)" using findIndex_range [of P xs] by simp
  have "slice xs 0 (findIndex P xs) = take (nat (findIndex P xs)) xs"
    using assms r by (simp add: slice_prefix)
  moreover have "slice_from xs (findIndex P xs + 1) = drop (nat (findIndex P xs + 1)) xs"
    using assms r by (simp add: slice_from_suffix)
  moreover have "nat (findIndex P xs + 1) = Suc (nat (findIndex P xs))"
    using assms by simp
  ultimately show ?thesis by simp
qed

lemma remove_first_filter:
  "0 \<le> findIndex (\<lambda>p. f p = a) xs \<Longrightarrow> distinct (map f xs) \<Longrightarrow>
   take (nat (findIndex (\<lambda>p. f p = a) xs)) xs @ drop (Suc (nat (findIndex (\<lambda>p. f p = a) xs))) xs
     = filter (\<lambda>p. f p \<noteq> a) xs"
proof (induction xs)
  case Nil
  then show ?case by simp
next
  case (Cons x xs)
  show ?case
  proof (cases "f x = a")
    case True
    with Cons.prems have "\<forall>p \<in> set xs. f p \<noteq> a" by (auto simp: image_iff)
    then have "filter (\<lambda>p. f p \<noteq> a) xs = xs" by (simp add: filter_id_conv)
    with True show ?thesis by simp
  next
    case False
    with Cons.prems have ge: "0 \<le> findIndex (\<lambda>p. f p = a) xs"
      by (auto simp: Let_def split: if_splits)
    with False have "findIndex (\<lambda>p. f p = a) (x # xs) = findIndex (\<lambda>p. f p = a) xs + 1"
      by (simp add: Let_def)
    with False ge Cons show ?thesis by (simp add: nat_add_distrib)
  qed
qed


lemma findIndex_nonneg_iff: "0 \<le> findIndex P xs \<longleftrightarrow> (\<exists>x \<in> set xs. P x)"
  using findIndex_neg_iff [of P xs] by auto

subsection \<open>The selection\<close>

lemma alerts_append: "alerts (es @ fs) = alerts es @ alerts fs"
  by (simp add: alerts_def)

lemma alerts_fetches: "alerts (map (\<lambda>p. Fetch (f p)) ps) = []"
  by (induction ps) (simp_all add: alerts_def)

lemma selected_updateChart_begin: "selectedPokemon (updateChart_begin s) = selectedPokemon s"
  by (simp add: updateChart_begin_def)

lemma alerts_updateChart_begin: "alerts (events (updateChart_begin s)) = alerts (events s)"
  by (simp add: updateChart_begin_def alerts_append alerts_fetches)

lemma selected_togglePokemon:
  "selectedPokemon (togglePokemon e s) =
     (let sel = selectedPokemon s; i = findIndex (\<lambda>p. pokemon_id p = pokemon_id e) sel in
      if 0 \<le> i then take (nat i) sel @ drop (Suc (nat i)) sel
      else if length sel < 6 then sel @ [e] else sel)"
  by (simp add: togglePokemon_def Let_def selected_updateChart_begin remove_at_index)

lemma alerts_togglePokemon:
  "alerts (events (togglePokemon e s)) =
     (let sel = selectedPokemon s; i = findIndex (\<lambda>p. pokemon_id p = pokemon_id e) sel in
      if 0 \<le> i \<or> length sel < 6 then alerts (events s)
      else alerts (events s) @ [capacity_warning])"
  by (simp add: togglePokemon_def Let_def alerts_updateChart_begin alerts_append) (simp add: alerts_def)

lemma distinct_remove_at: "distinct (map f xs) \<Longrightarrow> distinct (map f (take i xs @ drop (Suc i) xs))"
proof -
  assume d: "distinct (map f xs)"
  have "set (take i (map f xs)) \<inter> set (drop (Suc i) (map f xs)) = {}"
    using d by (rule set_take_disj_set_drop_if_distinct) simp
  with d show ?thesis
    by (simp add: take_map [symmetric] drop_map [symmetric] del: take_map drop_map)
qed

lemma selection_ok_togglePokemon:
  assumes "selection_ok s"
  shows "selection_ok (togglePokemon e s)"
proof (cases "0 \<le> findIndex (\<lambda>p. pokemon_id p = pokemon_id e) (selectedPokemon s)")
  case True
  have "length (take i xs @ drop (Suc i) xs) \<le> length xs" for i and xs :: "pokemon list"
    by simp
  with assms True show ?thesis
    by (simp add: selection_ok_def selected_togglePokemon Let_def distinct_remove_at
          del: map_append length_append) (meson le_trans)
next
  case False
  then have "\<forall>p \<in> set (selectedPokemon s). pokemon_id p \<noteq> pokemon_id e"
    using findIndex_neg_iff [of "\<lambda>p. pokemon_id p = pokemon_id e" "selectedPokemon s"] by simp
  with assms False show ?thesis
    by (auto simp: selection_ok_def selected_togglePokemon Let_def)
qed

lemma selected_updateChart_resume: "selectedPokemon (updateChart_resume sel rs s) = selectedPokemon s"
  by (simp add: updateChart_resume_def Let_def split: option.splits)

lemma selected_fetchPokemonList_resume: "selectedPokemon (fetchPokemonList_resume r s) = selectedPokemon s"
  by (simp add: fetchPokemonList_resume_def Let_def split: response.splits)

lemma selection_ok_step: "selection_ok s \<Longrightarrow> selection_ok (step a s)"
proof (cases a)
  case (Toggle e)
  assume "selection_ok s"
  with Toggle show ?thesis by (simp add: selection_ok_togglePokemon)
qed (simp_all add: selection_ok_def fetchPokemonList_begin_def selected_fetchPokemonList_resume
       selected_updateChart_resume)

lemma selection_ok_run: "selection_ok s \<Longrightarrow> selection_ok (run acts s)"
  by (induction acts arbitrary: s) (simp_all add: selection_ok_step)

text \<open>
  C1. Whatever happens to the component from a state with an empty selection (any
  sequence of clicks on entries, with or without the other events in between), the
  selection has at most 6 entries and no two of them have the same id.
\<close>

theorem selection_bounded_distinct:
  "selectedPokemon s = [] \<Longrightarrow>
   length (selectedPokemon (run acts s)) \<le> 6 \<and>
   distinct (map pokemon_id (selectedPokemon (run acts s)))"
  using selection_ok_run [of s acts] by (simp add: selection_ok_def)

theorem selection_bounded_distinct_witness:
  "selectedPokemon init = [] \<and>
   length (selectedPokemon (run (map (\<lambda>n. Toggle (entry n)) [1, 2, 3, 4, 5, 6, 7, 2]) init)) \<le> 6 \<and>
   distinct (map pokemon_id
     (selectedPokemon (run (map (\<lambda>n. Toggle (entry n)) [1, 2, 3, 4, 5, 6, 7, 2]) init))) \<and>
   selectedPokemon (run (map (\<lambda>n. Toggle (entry n)) [1, 2, 3, 4, 5, 6, 7, 2]) init) =
     map entry [1, 3, 4, 5, 6]"
proof -
  have e: "selectedPokemon init = []" by (simp add: init_def)
  have v: "selectedPokemon (run (map (\<lambda>n. Toggle (entry n)) [1, 2, 3, 4, 5, 6, 7, 2]) init) =
     map entry [1, 3, 4, 5, 6]" by code_simp
  from selection_bounded_distinct [OF e, of "map (\<lambda>n. Toggle (entry n)) [1, 2, 3, 4, 5, 6, 7, 2]"] e v
  show ?thesis by simp
qed

text \<open>
  C2. One call of \<^verbatim>\<open>togglePokemon(e)\<close>, in any state. If some selected entry has the
  id of \<open>e\<close>, one such entry (at position \<open>i\<close>) is taken out and the others keep their
  order; when the ids of the selection are distinct, as they are in every state the
  component reaches, no entry with that id is left. No alert is raised. Otherwise, with
  fewer than 6 entries, \<open>e\<close> is appended and no alert is raised. Otherwise the selection
  stays as it is and the capacity warning is alerted.
\<close>

theorem togglePokemon_cases:
  "(if \<exists>p \<in> set (selectedPokemon s). pokemon_id p = pokemon_id e then
      (\<exists>i < length (selectedPokemon s).
          pokemon_id (selectedPokemon s ! i) = pokemon_id e \<and>
          selectedPokemon (togglePokemon e s) =
            take i (selectedPokemon s) @ drop (Suc i) (selectedPokemon s)) \<and>
      (distinct (map pokemon_id (selectedPokemon s)) \<longrightarrow>
          selectedPokemon (togglePokemon e s) =
            filter (\<lambda>p. pokemon_id p \<noteq> pokemon_id e) (selectedPokemon s)) \<and>
      alerts (events (togglePokemon e s)) = alerts (events s)
    else if length (selectedPokemon s) < 6 then
      selectedPokemon (togglePokemon e s) = selectedPokemon s @ [e] \<and>
      alerts (events (togglePokemon e s)) = alerts (events s)
    else
      selectedPokemon (togglePokemon e s) = selectedPokemon s \<and>
      alerts (events (togglePokemon e s)) = alerts (events s) @ [capacity_warning])"
proof (cases "\<exists>p \<in> set (selectedPokemon s). pokemon_id p = pokemon_id e")
  case True
  let ?P = "\<lambda>p. pokemon_id p = pokemon_id e"
  let ?sel = "selectedPokemon s"
  from True have ge: "0 \<le> findIndex ?P ?sel" by (simp add: findIndex_nonneg_iff)
  have lt: "nat (findIndex ?P ?sel) < length ?sel"
    using ge findIndex_range [of ?P ?sel] by simp
  have hit: "pokemon_id (?sel ! nat (findIndex ?P ?sel)) = pokemon_id e"
    using ge by (rule findIndex_hit)
  have sel': "selectedPokemon (togglePokemon e s) =
      take (nat (findIndex ?P ?sel)) ?sel @ drop (Suc (nat (findIndex ?P ?sel))) ?sel"
    using ge by (simp add: selected_togglePokemon Let_def)
  have a: "\<exists>i < length ?sel. pokemon_id (?sel ! i) = pokemon_id e \<and>
      selectedPokemon (togglePokemon e s) = take i ?sel @ drop (Suc i) ?sel"
    using lt hit sel' by blast
  have b: "distinct (map pokemon_id ?sel) \<longrightarrow>
      selectedPokemon (togglePokemon e s) = filter (\<lambda>p. pokemon_id p \<noteq> pokemon_id e) ?sel"
    using ge sel' by (simp add: remove_first_filter)
  have c: "alerts (events (togglePokemon e s)) = alerts (events s)"
    using ge by (simp add: alerts_togglePokemon Let_def)
  from True a b c show ?thesis by simp
next
  case False
  then have "\<not> 0 \<le> findIndex (\<lambda>p. pokemon_id p = pokemon_id e) (selectedPokemon s)"
    by (simp add: findIndex_nonneg_iff)
  with False show ?thesis
    by (simp add: selected_togglePokemon alerts_togglePokemon Let_def)
qed

theorem togglePokemon_cases_witness:
  "selectedPokemon (togglePokemon (entry 2) (with_selection [entry 1, entry 2, entry 3])) =
     [entry 1, entry 3] \<and>
   alerts (events (togglePokemon (entry 2) (with_selection [entry 1, entry 2, entry 3]))) = [] \<and>
   selectedPokemon (togglePokemon (entry 3) (with_selection [entry 1, entry 2])) =
     [entry 1, entry 2, entry 3] \<and>
   alerts (events (togglePokemon (entry 3) (with_selection [entry 1, entry 2]))) = [] \<and>
   selectedPokemon (togglePokemon (entry 7) (with_selection (map entry [1, 2, 3, 4, 5, 6]))) =
     map entry [1, 2, 3, 4, 5, 6] \<and>
   alerts (events (togglePokemon (entry 7) (with_selection (map entry [1, 2, 3, 4, 5, 6])))) =
     [capacity_warning]"
  using togglePokemon_cases [of "with_selection [entry 1, entry 2, entry 3]" "entry 2"]
    togglePokemon_cases [of "with_selection [entry 1, entry 2]" "entry 3"]
    togglePokemon_cases [of "with_selection (map entry [1, 2, 3, 4, 5, 6])" "entry 7"]
  by (simp add: with_selection_def init_def entry_def alerts_def)

lemma findIndex_append_miss:
  "\<forall>x \<in> set xs. \<not> P x \<Longrightarrow> P y \<Longrightarrow> findIndex P (xs @ [y]) = int (length xs)"
  by (induction xs) (simp_all add: Let_def)

lemma selected_toggle_absent:
  assumes "\<forall>p \<in> set (selectedPokemon s). pokemon_id p \<noteq> pokemon_id e"
  shows "selectedPokemon (togglePokemon e s) =
           (if length (selectedPokemon s) < 6 then selectedPokemon s @ [e] else selectedPokemon s)"
proof -
  have "\<not> 0 \<le> findIndex (\<lambda>p. pokemon_id p = pokemon_id e) (selectedPokemon s)"
    using assms by (simp add: findIndex_nonneg_iff)
  then show ?thesis by (simp add: selected_togglePokemon Let_def)
qed

lemma selected_toggle_last:
  assumes "\<forall>p \<in> set xs. pokemon_id p \<noteq> pokemon_id e" and "selectedPokemon s = xs @ [e]"
  shows "selectedPokemon (togglePokemon e s) = xs"
proof -
  have "findIndex (\<lambda>p. pokemon_id p = pokemon_id e) (xs @ [e]) = int (length xs)"
    using assms(1) by (simp add: findIndex_append_miss)
  with assms(2) show ?thesis by (simp add: selected_togglePokemon Let_def)
qed

lemma selected_toggle_present:
  assumes "\<exists>p \<in> set (selectedPokemon s). pokemon_id p = pokemon_id e"
    and "distinct (map pokemon_id (selectedPokemon s))"
  shows "selectedPokemon (togglePokemon e s) =
           filter (\<lambda>p. pokemon_id p \<noteq> pokemon_id e) (selectedPokemon s)"
proof -
  have "0 \<le> findIndex (\<lambda>p. pokemon_id p = pokemon_id e) (selectedPokemon s)"
    using assms(1) by (simp add: findIndex_nonneg_iff)
  with assms(2) show ?thesis
    by (simp add: selected_togglePokemon Let_def remove_first_filter)
qed

lemma twice_absent:
  assumes "\<forall>p \<in> set (selectedPokemon s). pokemon_id p \<noteq> pokemon_id e"
  shows "selectedPokemon (togglePokemon e (togglePokemon e s)) = selectedPokemon s"
proof (cases "length (selectedPokemon s) < 6")
  case True
  with assms have "selectedPokemon (togglePokemon e s) = selectedPokemon s @ [e]"
    by (simp add: selected_toggle_absent)
  with assms show ?thesis by (rule selected_toggle_last)
next
  case False
  with assms have same: "selectedPokemon (togglePokemon e s) = selectedPokemon s"
    by (simp add: selected_toggle_absent)
  with assms have "\<forall>p \<in> set (selectedPokemon (togglePokemon e s)). pokemon_id p \<noteq> pokemon_id e"
    by simp
  then show ?thesis using False same by (simp add: selected_toggle_absent)
qed

lemma twice_present:
  assumes "\<exists>p \<in> set (selectedPokemon s). pokemon_id p = pokemon_id e"
    and "distinct (map pokemon_id (selectedPokemon s))"
    and "length (selectedPokemon s) \<le> 6"
  shows "selectedPokemon (togglePokemon e (togglePokemon e s)) =
           filter (\<lambda>p. pokemon_id p \<noteq> pokemon_id e) (selectedPokemon s) @ [e]"
proof -
  let ?rest = "filter (\<lambda>p. pokemon_id p \<noteq> pokemon_id e) (selectedPokemon s)"
  have first: "selectedPokemon (togglePokemon e s) = ?rest"
    using assms(1,2) by (rule selected_toggle_present)
  have "length ?rest < length (selectedPokemon s)"
    using assms(1) by (auto intro: length_filter_less)
  with assms(3) have short: "length ?rest < 6" by simp
  have "\<forall>p \<in> set (selectedPokemon (togglePokemon e s)). pokemon_id p \<noteq> pokemon_id e"
    by (simp add: first)
  then show ?thesis using short first by (simp add: selected_toggle_absent)
qed

lemma filter_others_restores:
  assumes "distinct (map f xs)" and "xs \<noteq> []"
  shows "filter (\<lambda>p. f p \<noteq> f e) xs @ [e] = xs \<longleftrightarrow> last xs = e"
proof
  assume "filter (\<lambda>p. f p \<noteq> f e) xs @ [e] = xs"
  then have "last xs = last (filter (\<lambda>p. f p \<noteq> f e) xs @ [e])" by simp
  then show "last xs = e" by simp
next
  assume l: "last xs = e"
  with assms(2) have xs: "xs = butlast xs @ [e]" by (metis append_butlast_last_id)
  with assms(1) have "distinct (map f (butlast xs @ [e]))" by simp
  then have "\<forall>p \<in> set (butlast xs). f p \<noteq> f e" by (auto simp: image_iff)
  then have "filter (\<lambda>p. f p \<noteq> f e) (butlast xs) = butlast xs" by (simp add: filter_id_conv)
  then have "filter (\<lambda>p. f p \<noteq> f e) (butlast xs @ [e]) @ [e] = butlast xs @ [e]" by simp
  with xs show "filter (\<lambda>p. f p \<noteq> f e) xs @ [e] = xs" by simp
qed

text \<open>
  C6. Two calls of \<^verbatim>\<open>togglePokemon(e)\<close> in a row. When no selected entry has the id
  of \<open>e\<close>, the selection is afterwards what it was, in content and order (at capacity
  both calls are rejected). When an entry with that id is selected, in a selection of at
  most 6 entries with distinct ids, the first call takes it out and the second appends
  \<open>e\<close> at the end: the selection is what it was exactly when \<open>e\<close> was its last entry.
\<close>

theorem toggle_twice:
  "((\<forall>p \<in> set (selectedPokemon s). pokemon_id p \<noteq> pokemon_id e) \<longrightarrow>
      selectedPokemon (togglePokemon e (togglePokemon e s)) = selectedPokemon s) \<and>
   ((\<exists>p \<in> set (selectedPokemon s). pokemon_id p = pokemon_id e) \<and>
    distinct (map pokemon_id (selectedPokemon s)) \<and> length (selectedPokemon s) \<le> 6 \<longrightarrow>
      selectedPokemon (togglePokemon e (togglePokemon e s)) =
        filter (\<lambda>p. pokemon_id p \<noteq> pokemon_id e) (selectedPokemon s) @ [e] \<and>
      (selectedPokemon (togglePokemon e (togglePokemon e s)) = selectedPokemon s
         \<longleftrightarrow> last (selectedPokemon s) = e))"
proof (intro conjI impI)
  assume "\<forall>p \<in> set (selectedPokemon s). pokemon_id p \<noteq> pokemon_id e"
  then show "selectedPokemon (togglePokemon e (togglePokemon e s)) = selectedPokemon s"
    by (rule twice_absent)
next
  assume a: "(\<exists>p \<in> set (selectedPokemon s). pokemon_id p = pokemon_id e) \<and>
    distinct (map pokemon_id (selectedPokemon s)) \<and> length (selectedPokemon s) \<le> 6"
  then show eq: "selectedPokemon (togglePokemon e (togglePokemon e s)) =
        filter (\<lambda>p. pokemon_id p \<noteq> pokemon_id e) (selectedPokemon s) @ [e]"
    by (simp add: twice_present)
  from a have "selectedPokemon s \<noteq> []" by auto
  with a eq show "selectedPokemon (togglePokemon e (togglePokemon e s)) = selectedPokemon s
         \<longleftrightarrow> last (selectedPokemon s) = e"
    by (simp add: filter_others_restores)
qed

theorem toggle_twice_counterexample:
  "selectedPokemon (run [Toggle bulbasaur, Toggle charmander] init) = [bulbasaur, charmander] \<and>
   selectedPokemon (run [Toggle bulbasaur, Toggle charmander, Toggle bulbasaur, Toggle bulbasaur] init)
     = [charmander, bulbasaur]"
  by code_simp

theorem toggle_twice_witness:
  "selectedPokemon (togglePokemon charmander (togglePokemon charmander (with_selection [bulbasaur])))
     = [bulbasaur] \<and>
   selectedPokemon (togglePokemon bulbasaur (togglePokemon bulbasaur (with_selection [bulbasaur, charmander])))
     = [charmander, bulbasaur] \<and>
   selectedPokemon (togglePokemon charmander (togglePokemon charmander (with_selection [bulbasaur, charmander])))
     = [bulbasaur, charmander]"
  using toggle_twice [of "with_selection [bulbasaur]" charmander]
    toggle_twice [of "with_selection [bulbasaur, charmander]" bulbasaur]
    toggle_twice [of "with_selection [bulbasaur, charmander]" charmander]
  by (simp add: with_selection_def init_def bulbasaur_def charmander_def)

subsection \<open>Rendering\<close>

lemma updateChart_begin_empty: "selectedPokemon s = [] \<Longrightarrow> updateChart_begin s = s"
  by (simp add: updateChart_begin_def)

lemma datasets_of_None_iff: "datasets_of index ds = None \<longleftrightarrow> None \<in> set ds"
proof (induction ds arbitrary: index)
  case Nil
  then show ?case by simp
next
  case (Cons d ds)
  then show ?case by (cases d) (auto split: option.splits)
qed

lemma details_None_iff:
  "length rs = length sel \<Longrightarrow>
   None \<in> set (map (\<lambda>(pokemon, r). fetchPokemonDetails pokemon r) (zip sel rs)) \<longleftrightarrow> Failed \<in> set rs"
proof (induction sel rs rule: list_induct2')
  case (4 p ps r rs)
  then show ?case by (cases r) (auto simp: fetchPokemonDetails_def)
qed simp_all

lemma chart_events_append: "chart_events (es @ fs) = chart_events es @ chart_events fs"
  by (simp add: chart_events_def)

lemma chart_events_fetches: "chart_events (map (\<lambda>p. Fetch (f p)) ps) = []"
  by (induction ps) (simp_all add: chart_events_def)

lemma chart_events_logs:
  "chart_events (concat (map (\<lambda>(pokemon, r). fetchPokemonDetails_log pokemon r) prs)) = []"
proof (induction prs)
  case Nil
  then show ?case by (simp add: chart_events_def)
next
  case (Cons pr prs)
  obtain p r where pr: "pr = (p, r)" by (cases pr)
  have "chart_events (fetchPokemonDetails_log p r) = []"
    by (cases r) (simp_all add: fetchPokemonDetails_log_def chart_events_def)
  with Cons pr show ?case by (simp add: chart_events_append)
qed

lemma updateChart_resume_failed:
  assumes "length rs = length sel" and "Failed \<in> set rs"
  shows "updateChart_resume sel rs s =
           s\<lparr>events := events s @
                concat (map (\<lambda>(pokemon, r). fetchPokemonDetails_log pokemon r) (zip sel rs)) @
                [UncaughtTypeError]\<rparr>"
proof -
  have "None \<in> set (map (\<lambda>(pokemon, r). fetchPokemonDetails pokemon r) (zip sel rs))"
    using details_None_iff [OF assms(1)] assms(2) by blast
  then have "datasets_of 0 (map (\<lambda>(pokemon, r). fetchPokemonDetails pokemon r) (zip sel rs)) = None"
    by (rule datasets_of_None_iff [THEN iffD2])
  then show ?thesis by (simp add: updateChart_resume_def Let_def)
qed

lemma settle_latest:
  "selectedPokemon s \<noteq> [] \<Longrightarrow> length rs = length (selectedPokemon s) \<Longrightarrow>
   step (RenderSettled (length (renders s)) rs) (updateChart_begin s) =
     updateChart_resume (selectedPokemon s) rs
       (s\<lparr>loading := True,
          events := events s @ map (\<lambda>pokemon. Fetch (pokemon_url pokemon)) (selectedPokemon s)\<rparr>)"
  by (simp add: updateChart_begin_def)

text \<open>
  C3. A render of a non-empty selection in which the request of at least one entry fails:
  \<^verbatim>\<open>fetchPokemonDetails\<close> resolves to \<^verbatim>\<open>null\<close> for that entry, and
  \<^verbatim>\<open>updateChart\<close> is left by a TypeError when it reads the name of the \<^verbatim>\<open>null\<close>
  element, before any chart object is touched. In the state \<open>s'\<close> after the render
  \<^verbatim>\<open>chartInstance\<close> is what it was, no chart object has been created or destroyed, and
  the last effect is the uncaught error.
\<close>

theorem render_failed_keeps_chart:
  assumes "selectedPokemon s \<noteq> []"
    and "length rs = length (selectedPokemon s)"
    and "Failed \<in> set rs"
    and "s' = step (RenderSettled (length (renders s)) rs) (updateChart_begin s)"
  shows "chartInstance s' = chartInstance s \<and>
         created s' = created s \<and>
         chart_events (events s') = chart_events (events s) \<and>
         last (events s') = UncaughtTypeError \<and>
         renders s' = renders s"
proof -
  have "s' = updateChart_resume (selectedPokemon s) rs
       (s\<lparr>loading := True,
          events := events s @ map (\<lambda>pokemon. Fetch (pokemon_url pokemon)) (selectedPokemon s)\<rparr>)"
    using settle_latest [OF assms(1,2)] assms(4) by simp
  then have "s' = s\<lparr>loading := True,
      events := (events s @ map (\<lambda>pokemon. Fetch (pokemon_url pokemon)) (selectedPokemon s)) @
        concat (map (\<lambda>(pokemon, r). fetchPokemonDetails_log pokemon r) (zip (selectedPokemon s) rs)) @
        [UncaughtTypeError]\<rparr>"
    using updateChart_resume_failed [OF assms(2,3)] by simp
  then show ?thesis
    by (simp add: chart_events_append chart_events_fetches chart_events_logs)
      (simp add: chart_events_def)
qed

theorem render_failed_keeps_chart_witness:
  "selectedPokemon (togglePokemon charmander one_chart) = [bulbasaur, charmander] \<and>
   chartInstance (run [RenderSettled 0 [Body bulbasaur_stats, Failed]] (togglePokemon charmander one_chart))
     = chartInstance one_chart \<and>
   chartInstance one_chart \<noteq> None \<and>
   chart_events (events (run [RenderSettled 0 [Body bulbasaur_stats, Failed]] (togglePokemon charmander one_chart)))
     = [ChartNew 0]"
proof -
  let ?s = "(one_chart\<lparr>selectedPokemon := [bulbasaur, charmander]\<rparr>)"
  have a: "selectedPokemon ?s \<noteq> []" by simp
  have b: "length [Body bulbasaur_stats, Failed] = length (selectedPokemon ?s)" by simp
  have c: "Failed \<in> set [Body bulbasaur_stats, Failed]" by simp
  have d: "updateChart_begin ?s = togglePokemon charmander one_chart" by code_simp
  have e: "renders ?s = []" by code_simp
  have f: "chartInstance one_chart \<noteq> None" by code_simp
  have g: "chart_events (events one_chart) = [ChartNew 0]" by code_simp
  have h: "selectedPokemon (togglePokemon charmander one_chart) = [bulbasaur, charmander]" by code_simp
  from render_failed_keeps_chart [OF a b c refl] d e f g h show ?thesis by simp
qed

lemma loading_fetchPokemonList:
  "loading (fetchPokemonList_begin s) \<and> \<not> loading (fetchPokemonList_resume r s)"
  by (simp add: fetchPokemonList_begin_def fetchPokemonList_resume_def Let_def)

lemma loading_updateChart_begin: "selectedPokemon s \<noteq> [] \<Longrightarrow> loading (updateChart_begin s)"
  by (simp add: updateChart_begin_def)

lemma loading_updateChart_failed:
  "length rs = length sel \<Longrightarrow> Failed \<in> set rs \<Longrightarrow>
   loading (updateChart_resume sel rs s) = loading s"
  by (simp add: updateChart_resume_failed)

lemma fetches_append: "fetches (es @ fs) = fetches es @ fetches fs"
  by (simp add: fetches_def)

lemma toggle_last_entry:
  assumes "selectedPokemon s = [p]" and "pokemon_id p = pokemon_id e"
  shows "togglePokemon e s = s\<lparr>selectedPokemon := []\<rparr>"
proof -
  have "findIndex (\<lambda>q. pokemon_id q = pokemon_id e) (selectedPokemon s) = 0"
    using assms by simp
  moreover have "slice [p] 0 0 @ slice_from [p] 1 = []"
    by (simp add: slice_def slice_from_def)
  ultimately show ?thesis
    using assms(1) by (simp add: togglePokemon_def updateChart_begin_def)
qed

text \<open>
  C10. A call of \<^verbatim>\<open>updateChart\<close> with an empty selection returns at once and changes
  nothing. In particular, a click that removes the only selected entry empties the
  selection and leaves everything else as it was: the chart object is not destroyed, the
  variable \<^verbatim>\<open>chartInstance\<close> and the loading flag keep their values.
\<close>

theorem updateChart_empty_is_noop:
  "(selectedPokemon s = [] \<longrightarrow> updateChart_begin s = s) \<and>
   (selectedPokemon s = [p] \<and> pokemon_id p = pokemon_id e \<longrightarrow>
      togglePokemon e s = s\<lparr>selectedPokemon := []\<rparr> \<and>
      chartInstance (togglePokemon e s) = chartInstance s \<and>
      loading (togglePokemon e s) = loading s \<and>
      events (togglePokemon e s) = events s)"
  by (simp add: updateChart_begin_empty toggle_last_entry)

theorem updateChart_empty_is_noop_witness:
  "updateChart_begin (with_selection []) = with_selection [] \<and>
   selectedPokemon one_chart = [bulbasaur] \<and>
   selectedPokemon (togglePokemon bulbasaur one_chart) = [] \<and>
   chartInstance (togglePokemon bulbasaur one_chart) = chartInstance one_chart \<and>
   chartInstance one_chart \<noteq> None \<and>
   loading (togglePokemon bulbasaur one_chart) = loading one_chart \<and>
   chart_events (events (togglePokemon bulbasaur one_chart)) = [ChartNew 0]"
proof -
  have a: "selectedPokemon (with_selection []) = []" by (simp add: with_selection_def)
  have b: "selectedPokemon one_chart = [bulbasaur]" by code_simp
  have c: "chartInstance one_chart \<noteq> None" by code_simp
  have d: "chart_events (events one_chart) = [ChartNew 0]" by code_simp
  from updateChart_empty_is_noop [of "with_selection []" bulbasaur bulbasaur]
    updateChart_empty_is_noop [of one_chart bulbasaur bulbasaur] a b c d
  show ?thesis by simp
qed

text \<open>
  C9. A call of \<^verbatim>\<open>updateChart\<close> with an empty selection issues no request, is not
  suspended (so the part of the function that creates the chart never runs for it) and
  touches no chart object. What the chart area then shows follows the markup: the
  loading text while the loading flag is set, the placeholder otherwise.
\<close>

theorem render_empty_selection:
  "selectedPokemon s = [] \<Longrightarrow>
     fetches (events (updateChart_begin s)) = fetches (events s) \<and>
     renders (updateChart_begin s) = renders s \<and>
     chart_events (events (updateChart_begin s)) = chart_events (events s) \<and>
     chartInstance (updateChart_begin s) = chartInstance s \<and>
     chart_container (updateChart_begin s) = (if loading s then LoadingText else NoDataText)"
  by (simp add: updateChart_begin_empty chart_container_def)

theorem render_empty_selection_counterexample:
  "selectedPokemon (run [Toggle bulbasaur] init) = [bulbasaur] \<and>
   selectedPokemon (run [Toggle bulbasaur, Toggle bulbasaur] init) = [] \<and>
   chart_container (run [Toggle bulbasaur, Toggle bulbasaur] init) = LoadingText"
  by code_simp

theorem render_empty_selection_witness:
  "chart_container (updateChart_begin init) = NoDataText \<and>
   fetches (events (updateChart_begin init)) = [] \<and>
   chart_container (updateChart_begin (fetchPokemonList_begin init)) = LoadingText \<and>
   renders (updateChart_begin (fetchPokemonList_begin init)) = []"
  using render_empty_selection [of init] render_empty_selection [of "fetchPokemonList_begin init"]
  by (simp add: init_def fetchPokemonList_begin_def fetches_def)

text \<open>
  C8. The catalog load sets the loading flag and clears it whatever the request gives
  back. A render sets it and clears it when every request gave back a body. When a request
  of a render fails, the function is left by the TypeError before the flag is cleared: the
  render is over and the flag stays set.
\<close>

theorem loading_stuck_after_failed_render:
  "loading (run [Mount] init) = True \<and>
   loading (run [Mount, ListSettled Failed] init) = False \<and>
   loading (run [Toggle bulbasaur] init) = True \<and>
   loading (run [Toggle bulbasaur, RenderSettled 0 [Body bulbasaur_stats]] init) = False \<and>
   renders (run [Toggle bulbasaur, RenderSettled 0 [Failed]] init) = [] \<and>
   last (events (run [Toggle bulbasaur, RenderSettled 0 [Failed]] init)) = UncaughtTypeError \<and>
   loading (run [Toggle bulbasaur, RenderSettled 0 [Failed]] init) = True"
  by code_simp

subsection \<open>Chart objects\<close>

lemma live_after_append: "live_after L (es @ fs) = live_after (live_after L es) fs"
proof (induction es arbitrary: L)
  case Nil
  then show ?case by simp
next
  case (Cons e es)
  then show ?case by (cases e) simp_all
qed

lemma releases_first_append:
  "releases_first L (es @ fs) \<longleftrightarrow> releases_first L es \<and> releases_first (live_after L es) fs"
proof (induction es arbitrary: L)
  case Nil
  then show ?case by simp
next
  case (Cons e es)
  show ?case by (cases e) (simp_all add: Cons.IH cong: conj_cong)
qed

lemma no_chart_events: "chart_events es = [] \<Longrightarrow> live_after L es = L \<and> releases_first L es"
proof (induction es arbitrary: L)
  case Nil
  then show ?case by simp
next
  case (Cons e es)
  then show ?case by (cases e) (simp_all add: chart_events_def)
qed

lemma live_after_short: "releases_first L es \<Longrightarrow> length L \<le> 1 \<Longrightarrow> length (live_after L es) \<le> 1"
proof (induction es arbitrary: L)
  case Nil
  then show ?case by simp
next
  case (Cons e es)
  have "length (removeAll h L) \<le> length L" for h
    by simp
  with Cons.prems(2) have rm: "length (removeAll h L) \<le> 1" for h
    using le_trans by blast
  from Cons rm show ?case by (cases e) auto
qed

lemma live_after_keeps:
  "h \<in> set L \<or> ChartNew h \<in> set es \<Longrightarrow> ChartDestroy h \<notin> set es \<Longrightarrow> h \<in> set (live_after L es)"
proof (induction es arbitrary: L)
  case Nil
  then show ?case by simp
next
  case (Cons e es)
  show ?case
  proof (cases e)
    case (ChartNew k)
    with Cons.prems have "h \<in> set (L @ [k]) \<or> ChartNew h \<in> set es" by auto
    with Cons.prems ChartNew show ?thesis by (simp add: Cons.IH)
  next
    case (ChartDestroy k)
    with Cons.prems have "h \<in> set (removeAll k L) \<or> ChartNew h \<in> set es" by auto
    with Cons.prems ChartDestroy show ?thesis by (simp add: Cons.IH)
  qed (use Cons in auto)
qed

lemma chart_inv_plain:
  assumes "chart_inv s" and "chartInstance s' = chartInstance s"
    and "events s' = events s @ es" and "chart_events es = []"
  shows "chart_inv s'"
  using assms no_chart_events [OF assms(4)]
  by (simp add: chart_inv_def live_after_append releases_first_append)

lemma chart_inv_updateChart_begin: "chart_inv s \<Longrightarrow> chart_inv (updateChart_begin s)"
  by (rule chart_inv_plain [where es = "if length (selectedPokemon s) = 0 then []
          else map (\<lambda>pokemon. Fetch (pokemon_url pokemon)) (selectedPokemon s)"])
    (simp_all add: updateChart_begin_def chart_events_fetches, simp add: chart_events_def)

lemma chart_inv_togglePokemon: "chart_inv s \<Longrightarrow> chart_inv (togglePokemon e s)"
proof -
  assume inv: "chart_inv s"
  let ?i = "findIndex (\<lambda>p. pokemon_id p = pokemon_id e) (selectedPokemon s)"
  let ?s1 = "if ?i \<ge> 0 then
                  s\<lparr>selectedPokemon :=
                      slice (selectedPokemon s) 0 ?i @ slice_from (selectedPokemon s) (?i + 1)\<rparr>
                else if length (selectedPokemon s) < 6 then
                  s\<lparr>selectedPokemon := selectedPokemon s @ [e]\<rparr>
                else s\<lparr>events := events s @ [Alert capacity_warning]\<rparr>"
  have "chart_inv ?s1"
    by (rule chart_inv_plain [OF inv, where es = "if ?i \<ge> 0 \<or> length (selectedPokemon s) < 6 then []
          else [Alert capacity_warning]"]) (simp_all add: chart_events_def)
  then have "chart_inv (updateChart_begin ?s1)" by (rule chart_inv_updateChart_begin)
  then show ?thesis by (simp add: togglePokemon_def Let_def)
qed

lemma chart_inv_fetchPokemonList_begin: "chart_inv s \<Longrightarrow> chart_inv (fetchPokemonList_begin s)"
  by (rule chart_inv_plain [where es = "[Fetch list_url]"])
    (simp_all add: fetchPokemonList_begin_def chart_events_def)

lemma chart_inv_fetchPokemonList_resume:
  assumes "chart_inv s"
  shows "chart_inv (fetchPokemonList_resume r s)"
proof (cases r)
  case Failed
  show ?thesis
    by (rule chart_inv_plain [OF assms, where es = "[ConsoleError list_error]"])
      (simp_all add: Failed fetchPokemonList_resume_def chart_events_def)
next
  case (Body results)
  show ?thesis
    by (rule chart_inv_plain [OF assms, where es = "[]"])
      (simp_all add: Body fetchPokemonList_resume_def chart_events_def)
qed

lemma chart_inv_updateChart_resume:
  assumes "chart_inv s"
  shows "chart_inv (updateChart_resume sel rs s)"
proof -
  let ?logs = "concat (map (\<lambda>(pokemon, r). fetchPokemonDetails_log pokemon r) (zip sel rs))"
  let ?s1 = "s\<lparr>events := events s @ ?logs\<rparr>"
  have s1: "chart_inv ?s1"
    by (rule chart_inv_plain [OF assms, where es = ?logs]) (simp_all add: chart_events_logs)
  show ?thesis
  proof (cases "datasets_of 0 (map (\<lambda>(pokemon, r). fetchPokemonDetails pokemon r) (zip sel rs))")
    case None
    have "chart_inv (?s1\<lparr>events := events ?s1 @ [UncaughtTypeError]\<rparr>)"
      by (rule chart_inv_plain [OF s1, where es = "[UncaughtTypeError]"])
        (simp_all add: chart_events_def)
    with None show ?thesis by (simp add: updateChart_resume_def Let_def)
  next
    case (Some ds)
    from s1 have rf: "releases_first [] (events s @ ?logs)"
      and live: "live_after [] (events s @ ?logs) =
                   (case chartInstance s of None \<Rightarrow> [] | Some c \<Rightarrow> [chart_handle c])"
      by (simp_all add: chart_inv_def)
    show ?thesis
    proof (cases "chartInstance s")
      case None
      with Some rf live show ?thesis
        using live_after_append [of "[]" "events s @ ?logs" "[ChartNew (created s)]"]
          releases_first_append [of "[]" "events s @ ?logs" "[ChartNew (created s)]"]
        by (simp add: updateChart_resume_def Let_def chart_inv_def)
    next
      case (Some old)
      with \<open>datasets_of 0 _ = Some ds\<close> rf live show ?thesis
        using live_after_append [of "[]" "events s @ ?logs"
            "[ChartDestroy (chart_handle old), ChartNew (created s)]"]
          releases_first_append [of "[]" "events s @ ?logs"
            "[ChartDestroy (chart_handle old), ChartNew (created s)]"]
        by (simp add: updateChart_resume_def Let_def chart_inv_def)
    qed
  qed
qed

lemma chart_inv_step: "chart_inv s \<Longrightarrow> chart_inv (step a s)"
proof (cases a)
  case Mount
  assume "chart_inv s"
  with Mount show ?thesis by (simp add: chart_inv_fetchPokemonList_begin)
next
  case (ListSettled r)
  assume "chart_inv s"
  then have "chart_inv (s\<lparr>lists := lists s - 1\<rparr>)" by (simp add: chart_inv_def)
  then have "chart_inv (fetchPokemonList_resume r (s\<lparr>lists := lists s - 1\<rparr>))"
    by (rule chart_inv_fetchPokemonList_resume)
  with ListSettled \<open>chart_inv s\<close> show ?thesis by simp
next
  case (Search t)
  assume "chart_inv s"
  with Search show ?thesis by (simp add: chart_inv_def)
next
  case (Toggle e)
  assume "chart_inv s"
  with Toggle show ?thesis by (simp add: chart_inv_togglePokemon)
next
  case (RenderSettled k rs)
  assume inv: "chart_inv s"
  then have "chart_inv (s\<lparr>renders := take k (renders s) @ drop (Suc k) (renders s)\<rparr>)"
    by (simp add: chart_inv_def)
  then have "chart_inv (updateChart_resume (renders s ! k) rs
      (s\<lparr>renders := take k (renders s) @ drop (Suc k) (renders s)\<rparr>))"
    by (rule chart_inv_updateChart_resume)
  with RenderSettled inv show ?thesis by simp
qed

lemma chart_inv_run: "chart_inv s \<Longrightarrow> chart_inv (run acts s)"
  by (induction acts arbitrary: s) (simp_all add: chart_inv_step)

lemma chart_inv_init: "chart_inv init"
  by (simp add: chart_inv_def init_def)

text \<open>
  C7. Take any run of the component from its initial state, renders overlapping or not,
  and cut its log of effects at any moment into \<open>pre\<close> and \<open>post\<close>. At that moment at
  most one chart object is live. If the next effect is the creation of a chart object,
  none is live: every object created before has been destroyed before. At the end of
  the run the live object, if any, is the one in \<^verbatim>\<open>chartInstance\<close>.
\<close>

theorem single_live_chart:
  "events (run acts init) = pre @ post \<Longrightarrow>
     length (live_after [] pre) \<le> 1 \<and>
     (\<forall>h rest. post = ChartNew h # rest \<longrightarrow>
        live_after [] pre = [] \<and>
        (\<forall>old. ChartNew old \<in> set pre \<longrightarrow> ChartDestroy old \<in> set pre)) \<and>
     (post = [] \<longrightarrow>
        live_after [] pre =
          (case chartInstance (run acts init) of None \<Rightarrow> [] | Some c \<Rightarrow> [chart_handle c]))"
proof -
  assume ev: "events (run acts init) = pre @ post"
  have inv: "chart_inv (run acts init)" using chart_inv_init by (rule chart_inv_run)
  with ev have rf: "releases_first [] pre" and rf': "releases_first (live_after [] pre) post"
    by (simp_all add: chart_inv_def releases_first_append)
  from rf have a: "length (live_after [] pre) \<le> 1" by (rule live_after_short) simp
  have b: "live_after [] pre = [] \<and> (\<forall>old. ChartNew old \<in> set pre \<longrightarrow> ChartDestroy old \<in> set pre)"
    if "post = ChartNew h # rest" for h rest
  proof -
    from rf' that have e: "live_after [] pre = []" by simp
    have "ChartDestroy old \<in> set pre" if "ChartNew old \<in> set pre" for old
    proof (rule ccontr)
      assume "ChartDestroy old \<notin> set pre"
      with that have "old \<in> set (live_after [] pre)" by (simp add: live_after_keeps)
      with e show False by simp
    qed
    with e show ?thesis by simp
  qed
  have c: "live_after [] pre =
      (case chartInstance (run acts init) of None \<Rightarrow> [] | Some c \<Rightarrow> [chart_handle c])"
    if "post = []"
    using inv ev that by (simp add: chart_inv_def)
  from a b c show ?thesis by blast
qed

theorem single_live_chart_witness:
  "events (run two_renders init) =
     [Fetch (pokemon_url bulbasaur), ChartNew 0,
      Fetch (pokemon_url bulbasaur), Fetch (pokemon_url charmander), ChartDestroy 0] @ [ChartNew 1] \<and>
   live_after [] [Fetch (pokemon_url bulbasaur), ChartNew 0,
      Fetch (pokemon_url bulbasaur), Fetch (pokemon_url charmander), ChartDestroy 0] = [] \<and>
   live_after [] (events (run two_renders init)) = [1] \<and>
   map_option chart_handle (chartInstance (run two_renders init)) = Some 1"
proof -
  let ?pre = "[Fetch (pokemon_url bulbasaur), ChartNew 0,
      Fetch (pokemon_url bulbasaur), Fetch (pokemon_url charmander), ChartDestroy 0]"
  have ev: "events (run two_renders init) = ?pre @ [ChartNew 1]" by code_simp
  have ev': "events (run two_renders init) = events (run two_renders init) @ []" by simp
  have h: "map_option chart_handle (chartInstance (run two_renders init)) = Some 1" by code_simp
  from single_live_chart [OF ev] have a: "live_after [] ?pre = []" by simp
  from single_live_chart [OF ev'] h
  have b: "live_after [] (events (run two_renders init)) = [1]"
    by (auto split: option.splits)
  from ev a b h show ?thesis by simp
qed

subsection \<open>The search filter\<close>

lemma starts_with_iff: "starts_with s t \<longleftrightarrow> (\<exists>post. s = t @ post)"
proof
  assume "starts_with s t"
  then have "s = t @ drop (length t) s"
    by (metis append_take_drop_id starts_with_def)
  then show "\<exists>post. s = t @ post" ..
next
  assume "\<exists>post. s = t @ post"
  then show "starts_with s t" by (auto simp: starts_with_def)
qed

lemma includes_str_iff: "includes_str s t \<longleftrightarrow> (\<exists>pre post. s = pre @ t @ post)"
proof (induction s)
  case Nil
  then show ?case by simp
next
  case (Cons c cs)
  have "(\<exists>pre post. c # cs = pre @ t @ post) \<longleftrightarrow>
        (\<exists>post. c # cs = t @ post) \<or> (\<exists>pre post. cs = pre @ t @ post)"
  proof
    assume "\<exists>pre post. c # cs = pre @ t @ post"
    then obtain pre post where e: "c # cs = pre @ t @ post" by blast
    show "(\<exists>post. c # cs = t @ post) \<or> (\<exists>pre post. cs = pre @ t @ post)"
    proof (cases pre)
      case Nil
      with e show ?thesis by auto
    next
      case (Cons a pre')
      with e have "cs = pre' @ t @ post" by simp
      then show ?thesis by blast
    qed
  next
    assume "(\<exists>post. c # cs = t @ post) \<or> (\<exists>pre post. cs = pre @ t @ post)"
    then show "\<exists>pre post. c # cs = pre @ t @ post"
    proof
      assume "\<exists>post. c # cs = t @ post"
      then obtain post where "c # cs = [] @ t @ post" by auto
      then show ?thesis by blast
    next
      assume "\<exists>pre post. cs = pre @ t @ post"
      then obtain pre post where "c # cs = (c # pre) @ t @ post" by auto
      then show ?thesis by blast
    qed
  qed
  with Cons show ?case by (simp add: starts_with_iff)
qed

lemma includes_lower_iff:
  "includes_str (toLowerCase n) (toLowerCase t) \<longleftrightarrow>
     (\<exists>pre mid post. n = pre @ mid @ post \<and> toLowerCase mid = toLowerCase t)"
proof
  assume "includes_str (toLowerCase n) (toLowerCase t)"
  then obtain a b where "map lower_char n = a @ map lower_char t @ b"
    by (auto simp: includes_str_iff toLowerCase_def)
  then obtain pre rest where n: "n = pre @ rest" and "map lower_char t @ b = map lower_char rest"
    unfolding map_eq_append_conv by blast
  then obtain mid post where "rest = mid @ post" and "map lower_char mid = map lower_char t"
    unfolding append_eq_map_conv by metis
  with n have "n = pre @ mid @ post \<and> toLowerCase mid = toLowerCase t"
    by (simp add: toLowerCase_def)
  then show "\<exists>pre mid post. n = pre @ mid @ post \<and> toLowerCase mid = toLowerCase t" by blast
next
  assume "\<exists>pre mid post. n = pre @ mid @ post \<and> toLowerCase mid = toLowerCase t"
  then obtain pre mid post where "n = pre @ mid @ post" and "toLowerCase mid = toLowerCase t"
    by blast
  then have "toLowerCase n = toLowerCase pre @ toLowerCase t @ toLowerCase post"
    by (simp add: toLowerCase_def)
  then show "includes_str (toLowerCase n) (toLowerCase t)"
    unfolding includes_str_iff by blast
qed

lemma includes_bulb: "includes_str (toLowerCase ''bulbasaur'') (toLowerCase ''BULB'')"
  by code_simp

text \<open>
  C5. The filter is a function of the catalog and the search term alone. It keeps, in
  catalog order, exactly the entries whose name has a contiguous part that equals the
  term up to letter case. With the empty term it returns the whole catalog, and with the
  term \<^verbatim>\<open>BULB\<close> it keeps every entry named \<^verbatim>\<open>bulbasaur\<close>.
\<close>

theorem filteredPokemon_contains:
  "filteredPokemon catalog term =
     filter (\<lambda>p. \<exists>pre mid post. pokemon_name p = pre @ mid @ post \<and>
                    toLowerCase mid = toLowerCase term) catalog \<and>
   filteredPokemon catalog [] = catalog \<and>
   (\<forall>p \<in> set catalog. pokemon_name p = ''bulbasaur'' \<longrightarrow> p \<in> set (filteredPokemon catalog ''BULB''))"
proof (intro conjI ballI impI)
  show "filteredPokemon catalog term =
     filter (\<lambda>p. \<exists>pre mid post. pokemon_name p = pre @ mid @ post \<and>
                    toLowerCase mid = toLowerCase term) catalog"
    by (simp add: filteredPokemon_def includes_lower_iff)
next
  have "includes_str s []" for s by (induction s) (simp_all add: starts_with_def)
  then show "filteredPokemon catalog [] = catalog"
    by (simp add: filteredPokemon_def toLowerCase_def)
next
  fix p assume "p \<in> set catalog" and "pokemon_name p = ''bulbasaur''"
  then show "p \<in> set (filteredPokemon catalog ''BULB'')"
    using includes_bulb by (simp add: filteredPokemon_def)
qed

theorem filteredPokemon_contains_witness:
  "filteredPokemon [bulbasaur, charmander] ''BULB'' = [bulbasaur] \<and>
   filteredPokemon [bulbasaur, charmander] ''Ar'' = [charmander] \<and>
   filteredPokemon [bulbasaur, charmander] ''A'' = [bulbasaur, charmander] \<and>
   filteredPokemon [bulbasaur, charmander] [] = [bulbasaur, charmander] \<and>
   filteredPokemon [bulbasaur, charmander] ''x'' = []"
proof -
  have v: "filteredPokemon [bulbasaur, charmander] ''BULB'' = [bulbasaur]"
    "filteredPokemon [bulbasaur, charmander] ''Ar'' = [charmander]"
    "filteredPokemon [bulbasaur, charmander] ''A'' = [bulbasaur, charmander]"
    "filteredPokemon [bulbasaur, charmander] ''x'' = []"
    by code_simp+
  from filteredPokemon_contains [of "[bulbasaur, charmander]" "''BULB''"] v
  show ?thesis by simp
qed

subsection \<open>The chart dataset\<close>

lemma datasets_of_Some:
  "datasets_of index (map Some ds) = Some (map (\<lambda>(k, d). dataset_of k d) (enumerate index ds))"
  by (induction ds arbitrary: index) simp_all

lemma details_of_bodies:
  "length bodies = length sel \<Longrightarrow>
   map (\<lambda>(pokemon, r). fetchPokemonDetails pokemon r) (zip sel (map Body bodies)) =
   map Some (map (\<lambda>(pokemon, stats).
       \<lparr>details_name = pokemon_name pokemon,
        details_stats = map (\<lambda>st. \<lparr>stat_name = stat_stat_name st, stat_value = base_stat st\<rparr>) stats\<rparr>)
     (zip sel bodies))"
  by (induction sel bodies rule: list_induct2') (simp_all add: fetchPokemonDetails_def)

lemma logs_of_bodies:
  "concat (map (\<lambda>(pokemon, r). fetchPokemonDetails_log pokemon r) (zip sel (map Body bodies))) = []"
  by (induction sel bodies rule: list_induct2') (simp_all add: fetchPokemonDetails_log_def)

lemma updateChart_resume_bodies:
  assumes "length bodies = length sel"
  shows "chartInstance (updateChart_resume sel (map Body bodies) s) =
     Some \<lparr>chart_handle = created s, chart_type = ''radar'',
           chart_data = \<lparr>labels = chart_labels,
             datasets = map (\<lambda>(k, d). dataset_of k d) (enumerate 0
               (map (\<lambda>(pokemon, stats).
                  \<lparr>details_name = pokemon_name pokemon,
                   details_stats = map (\<lambda>st. \<lparr>stat_name = stat_stat_name st, stat_value = base_stat st\<rparr>) stats\<rparr>)
                (zip sel bodies)))\<rparr>,
           r_beginAtZero = True, r_max = 150\<rparr>"
proof -
  have d: "datasets_of 0
      (map (\<lambda>(pokemon, r). fetchPokemonDetails pokemon r) (zip sel (map Body bodies))) =
    Some (map (\<lambda>(k, d). dataset_of k d) (enumerate 0
               (map (\<lambda>(pokemon, stats).
                  \<lparr>details_name = pokemon_name pokemon,
                   details_stats = map (\<lambda>st. \<lparr>stat_name = stat_stat_name st, stat_value = base_stat st\<rparr>) stats\<rparr>)
                (zip sel bodies))))"
    by (simp only: details_of_bodies [OF assms] datasets_of_Some)
  show ?thesis
    unfolding updateChart_resume_def Let_def d
    by (simp split: option.splits)
qed

text \<open>
  C4. A render of a non-empty selection in which every request gives back a body of 6
  stats. The chart created has the six axis labels in their fixed order and one series
  per entry of the selection, in selection order: the \<open>i\<close>-th series is labelled with the
  capitalised name of the \<open>i\<close>-th entry, is coloured with the palette colour at \<open>i\<close> modulo
  the palette length, and holds the 6 \<^verbatim>\<open>base_stat\<close> values of the \<open>i\<close>-th body in the
  order in which the body lists them. The names of the stats are not looked at.
\<close>

theorem chart_dataset:
  assumes "selectedPokemon s \<noteq> []"
    and "length bodies = length (selectedPokemon s)"
    and "\<forall>b \<in> set bodies. length b = 6"
    and "s' = step (RenderSettled (length (renders s)) (map Body bodies)) (updateChart_begin s)"
  shows "\<exists>c. chartInstance s' = Some c \<and>
     labels (chart_data c) =
       [''HP'', ''Ataque'', ''Defensa'', ''Ataque Esp.'', ''Defensa Esp.'', ''Velocidad''] \<and>
     length (datasets (chart_data c)) = length (selectedPokemon s) \<and>
     (\<forall>i < length (selectedPokemon s).
        label (datasets (chart_data c) ! i) =
          toUpperCase (take 1 (pokemon_name (selectedPokemon s ! i))) @
          drop 1 (pokemon_name (selectedPokemon s ! i)) \<and>
        data (datasets (chart_data c) ! i) = map base_stat (bodies ! i) \<and>
        length (data (datasets (chart_data c) ! i)) = 6 \<and>
        backgroundColor (datasets (chart_data c) ! i) = chartColors ! (i mod length chartColors) \<and>
        borderColor (datasets (chart_data c) ! i) =
          replace (chartColors ! (i mod length chartColors)) ''0.7'' ''1'')"
proof -
  let ?sel = "selectedPokemon s"
  have len: "length (map Body bodies) = length ?sel" using assms(2) by simp
  have s': "s' = updateChart_resume ?sel (map Body bodies)
       (s\<lparr>loading := True,
          events := events s @ map (\<lambda>pokemon. Fetch (pokemon_url pokemon)) ?sel\<rparr>)"
    using settle_latest [OF assms(1) len] assms(4) by simp
  let ?ds = "map (\<lambda>(k, d). dataset_of k d) (enumerate 0
               (map (\<lambda>(pokemon, stats).
                  \<lparr>details_name = pokemon_name pokemon,
                   details_stats = map (\<lambda>st. \<lparr>stat_name = stat_stat_name st, stat_value = base_stat st\<rparr>) stats\<rparr>)
                (zip ?sel bodies)))"
  let ?c = "\<lparr>chart_handle = created s, chart_type = ''radar'',
           chart_data = \<lparr>labels = chart_labels, datasets = ?ds\<rparr>,
           r_beginAtZero = True, r_max = 150\<rparr>"
  have c: "chartInstance s' = Some ?c"
    unfolding s' using updateChart_resume_bodies [OF assms(2)] by simp
  have each: "?ds ! i =
      dataset_of i \<lparr>details_name = pokemon_name (?sel ! i),
        details_stats = map (\<lambda>st. \<lparr>stat_name = stat_stat_name st, stat_value = base_stat st\<rparr>) (bodies ! i)\<rparr>"
    if "i < length ?sel" for i
    using that assms(2) by (simp add: nth_enumerate_eq)
  have six: "length (bodies ! i) = 6" if "i < length ?sel" for i
    using that assms(2,3) by simp
  have "labels (chart_data ?c) =
       [''HP'', ''Ataque'', ''Defensa'', ''Ataque Esp.'', ''Defensa Esp.'', ''Velocidad'']"
    by (simp add: chart_labels_def)
  moreover have "length (datasets (chart_data ?c)) = length ?sel"
    using assms(2) by simp
  moreover have "\<forall>i < length ?sel.
        label (datasets (chart_data ?c) ! i) =
          toUpperCase (take 1 (pokemon_name (?sel ! i))) @ drop 1 (pokemon_name (?sel ! i)) \<and>
        data (datasets (chart_data ?c) ! i) = map base_stat (bodies ! i) \<and>
        length (data (datasets (chart_data ?c) ! i)) = 6 \<and>
        backgroundColor (datasets (chart_data ?c) ! i) = chartColors ! (i mod length chartColors) \<and>
        borderColor (datasets (chart_data ?c) ! i) =
          replace (chartColors ! (i mod length chartColors)) ''0.7'' ''1''"
    using each six by (simp add: dataset_of_def comp_def)
  ultimately show ?thesis using c by blast
qed

theorem chart_dataset_counterexample:
  "map stat_stat_name charmander_stats_speed_first =
     [''speed'', ''hp'', ''attack'', ''defense'', ''special-attack'', ''special-defense''] \<and>
   map base_stat charmander_stats_speed_first = [65, 39, 52, 43, 60, 50] \<and>
   map_option (\<lambda>c. labels (chart_data c)) (chartInstance speed_first) =
     Some [''HP'', ''Ataque'', ''Defensa'', ''Ataque Esp.'', ''Defensa Esp.'', ''Velocidad''] \<and>
   map_option (\<lambda>c. map data (datasets (chart_data c))) (chartInstance speed_first) =
     Some [[65, 39, 52, 43, 60, 50]] \<and>
   set charmander_stats_speed_first = set charmander_stats \<and>
   map_option (\<lambda>c. map data (datasets (chart_data c))) (chartInstance speed_last) =
     Some [[39, 52, 43, 60, 50, 65]]"
  by code_simp

theorem chart_dataset_witness:
  "map_option (\<lambda>c. labels (chart_data c)) (chartInstance two_selected) =
     Some [''HP'', ''Ataque'', ''Defensa'', ''Ataque Esp.'', ''Defensa Esp.'', ''Velocidad''] \<and>
   map_option (\<lambda>c. map label (datasets (chart_data c))) (chartInstance two_selected) =
     Some [''Bulbasaur'', ''Charmander''] \<and>
   map_option (\<lambda>c. map data (datasets (chart_data c))) (chartInstance two_selected) =
     Some [[45, 49, 49, 65, 65, 45], [39, 52, 43, 60, 50, 65]] \<and>
   map_option (\<lambda>c. map backgroundColor (datasets (chart_data c))) (chartInstance two_selected) =
     Some [''rgba(255, 99, 132, 0.7)'', ''rgba(54, 162, 235, 0.7)''] \<and>
   map_option (\<lambda>c. map borderColor (datasets (chart_data c))) (chartInstance two_selected) =
     Some [''rgba(255, 99, 132, 1)'', ''rgba(54, 162, 235, 1)'']"
proof -
  let ?s = "with_selection [bulbasaur, charmander]"
  have a: "selectedPokemon ?s \<noteq> []" by (simp add: with_selection_def)
  have b: "length [bulbasaur_stats, charmander_stats] = length (selectedPokemon ?s)"
    by (simp add: with_selection_def)
  have c: "\<forall>b \<in> set [bulbasaur_stats, charmander_stats]. length b = 6"
    by (simp add: bulbasaur_stats_def charmander_stats_def stats_json_def)
  have d: "two_selected =
      step (RenderSettled (length (renders ?s)) (map Body [bulbasaur_stats, charmander_stats]))
        (updateChart_begin ?s)"
    by (simp add: two_selected_def with_selection_def init_def)
  have v: "map_option (\<lambda>c. map label (datasets (chart_data c))) (chartInstance two_selected) =
     Some [''Bulbasaur'', ''Charmander'']"
    "map_option (\<lambda>c. map data (datasets (chart_data c))) (chartInstance two_selected) =
     Some [[45, 49, 49, 65, 65, 45], [39, 52, 43, 60, 50, 65]]"
    "map_option (\<lambda>c. map backgroundColor (datasets (chart_data c))) (chartInstance two_selected) =
     Some [''rgba(255, 99, 132, 0.7)'', ''rgba(54, 162, 235, 0.7)'']"
    "map_option (\<lambda>c. map borderColor (datasets (chart_data c))) (chartInstance two_selected) =
     Some [''rgba(255, 99, 132, 1)'', ''rgba(54, 162, 235, 1)'']"
    by code_simp+
  from chart_dataset [OF a b c d] obtain ch where
    "chartInstance two_selected = Some ch" and
    "labels (chart_data ch) =
       [''HP'', ''Ataque'', ''Defensa'', ''Ataque Esp.'', ''Defensa Esp.'', ''Velocidad'']"
    by blast
  with v show ?thesis by simp
qed

end
